theory Spec2Isabelle
  imports Main "HOL-Library.Word"
begin

section \<open>Data shared by the client modules\<close>

text \<open>
  A \<open>Uint8Array\<close> is a list of bytes. A \<open>PublicKey\<close> is represented by its base58
  text, the form in which the client compares keys everywhere
  (\<^verbatim>\<open>a.toString() !== b.toString()\<close>), so that \<open>toString\<close> is the identity.
  A JavaScript \<open>Error\<close> is carried as a value with its message.
\<close>

type_synonym bytes = "8 word list"

type_synonym PublicKey = string

datatype error = Error string

record Keypair =
  publicKey :: PublicKey
  secretKey :: bytes

record Instruction =
  keys :: "(PublicKey \<times> bool \<times> bool) list"
  programId :: PublicKey
  data :: bytes

text \<open>
  A legacy \<open>Transaction\<close> of @solana/web3.js: its fee payer and recent blockhash may be
  unset, and each required signer has a slot holding its signature or \<open>null\<close>.
\<close>

record Transaction =
  feePayer :: "PublicKey option"
  recentBlockhash :: "string option"
  instructions :: "Instruction list"
  signatures :: "(PublicKey \<times> bytes option) list"

text \<open>
  A \<open>VersionedTransaction\<close>: a pre-built message whose first static account key is the
  fee payer, and one signature slot per required signer.
\<close>

record VersionedMessage =
  staticAccountKeys :: "PublicKey list"
  numRequiredSignatures :: nat
  messageBlockhash :: string
  compiledInstructions :: "(nat \<times> nat list \<times> bytes) list"

record VersionedTransaction =
  message :: VersionedMessage
  vsignatures :: "bytes list"

datatype AnyTransaction = Legacy Transaction | Versioned VersionedTransaction

text \<open>
  The wallet adapter's signer. \<open>signMessage\<close> is an optional capability; both calls may
  reject (the user declines the prompt).
\<close>

record AnchorWallet =
  walletPublicKey :: PublicKey
  signMessage :: "(bytes \<Rightarrow> error + bytes) option"
  signTransaction :: "Transaction \<Rightarrow> error + Transaction"

text \<open>
  The functions of the libraries the client imports (@noble/hashes, tweetnacl, bs58 inside
  @solana/web3.js, the serialiser of a versioned message, and \<open>JSON.parse\<close> followed
  by \<open>Uint8Array.from\<close>) are parameters of the model.
\<close>

record runtime =
  sha256 :: "bytes \<Rightarrow> bytes"
  getPublicKey :: "bytes \<Rightarrow> bytes"
  sign_detached :: "bytes \<Rightarrow> bytes \<Rightarrow> bytes"
  toBase58 :: "bytes \<Rightarrow> PublicKey"
  toBuffer :: "PublicKey \<Rightarrow> bytes"
  JSON_parse :: "string \<Rightarrow> error + bytes"
  serializeVersioned :: "VersionedMessage \<Rightarrow> bytes"

type_synonym Storage = "string \<rightharpoonup> string"

section \<open>Library routines the client calls\<close>

text \<open>\<open>new TextEncoder().encode\<close>: a \<open>string\<close> is already a sequence of UTF-8 bytes.\<close>

definition TextEncoder_encode :: "string \<Rightarrow> bytes" where
  "TextEncoder_encode s = map (\<lambda>c. of_nat (of_char c)) s"

text \<open>\<open>new PublicKey(bytes)\<close> refuses more than 32 bytes.\<close>

definition new_PublicKey :: "runtime \<Rightarrow> bytes \<Rightarrow> error + PublicKey" where
  "new_PublicKey R b =
     (if length b > 32 then Inl (Error ''Invalid public key input'')
      else Inr (toBase58 R b))"

text \<open>
  \<open>Keypair.fromSeed\<close> derives the public key of a 32-byte seed and lays the secret key
  out as seed followed by public key.
\<close>

definition Keypair_fromSeed :: "runtime \<Rightarrow> bytes \<Rightarrow> error + Keypair" where
  "Keypair_fromSeed R seed =
     (if length seed \<noteq> 32 then Inl (Error ''bad seed size'')
      else Inr \<lparr>publicKey = toBase58 R (getPublicKey R seed),
                secretKey = seed @ getPublicKey R seed\<rparr>)"

text \<open>
  \<open>Keypair.fromSecretKey\<close> checks the size, then checks that the public half is the one
  derived from the private half.
\<close>

definition Keypair_fromSecretKey :: "runtime \<Rightarrow> bytes \<Rightarrow> error + Keypair" where
  "Keypair_fromSecretKey R sk =
     (if length sk \<noteq> 64 then Inl (Error ''bad secret key size'')
      else if take 32 (getPublicKey R (take 32 sk)) \<noteq> drop 32 sk
        then Inl (Error ''provided secretKey is invalid'')
      else Inr \<lparr>publicKey = toBase58 R (drop 32 sk), secretKey = sk\<rparr>)"

text \<open>\<open>JSON.stringify(Array.from(bytes))\<close>: the decimal numbers between brackets.\<close>

definition digit :: "nat \<Rightarrow> char" where
  "digit d = char_of (48 + d)"

definition decimal :: "8 word \<Rightarrow> string" where
  "decimal b =
     (let n = unat b in
      if n < 10 then [digit n]
      else if n < 100 then [digit (n div 10), digit (n mod 10)]
      else [digit (n div 100), digit (n div 10 mod 10), digit (n mod 10)])"

fun commaSeparated :: "string list \<Rightarrow> string" where
  "commaSeparated [] = []"
| "commaSeparated [s] = s"
| "commaSeparated (s # t # ss) = s @ '','' @ commaSeparated (t # ss)"

definition JSON_stringify :: "bytes \<Rightarrow> string" where
  "JSON_stringify b = ''['' @ commaSeparated (map decimal b) @ '']''"

text \<open>
  \<open>JSON.parse\<close> followed by \<open>Uint8Array.from\<close>, on the texts whose outcome the cache
  depends on: an array of integers between 0 and 255 in JSON's number syntax (no sign, no
  leading zero), without white space. On such a text the two yield the array of those
  bytes. What they do on any other text is left to the runtime's parser.
\<close>

fun splitComma :: "string \<Rightarrow> string list" where
  "splitComma [] = [[]]"
| "splitComma (c # cs) =
     (if c = CHR '','' then [] # splitComma cs
      else (case splitComma cs of
              [] \<Rightarrow> [[c]]
            | item # items \<Rightarrow> (c # item) # items))"

definition isDigit :: "char \<Rightarrow> bool" where
  "isDigit c = (48 \<le> (of_char c :: nat) \<and> (of_char c :: nat) \<le> 57)"

definition digitsValue :: "string \<Rightarrow> nat" where
  "digitsValue s = foldl (\<lambda>a c. 10 * a + (of_char c - 48)) 0 s"

definition parseByte :: "string \<Rightarrow> 8 word option" where
  "parseByte s =
     (if s \<noteq> [] \<and> length s \<le> 3 \<and> list_all isDigit s
         \<and> (length s = 1 \<or> (of_char (hd s) :: nat) \<noteq> 48) \<and> digitsValue s \<le> 255
      then Some (of_nat (digitsValue s)) else None)"

definition parseByteArray :: "string \<Rightarrow> bytes option" where
  "parseByteArray text =
     (case text of
        [] \<Rightarrow> None
      | c # rest \<Rightarrow>
          if c \<noteq> CHR ''['' \<or> rest = [] \<or> last rest \<noteq> CHR '']'' then None
          else if butlast rest = [] then Some []
          else (let elements = map parseByte (splitComma (butlast rest))
                in if None \<in> set elements then None else Some (map the elements)))"

text \<open>The \<open>signature\<close> getter of a legacy transaction: the first slot, if any.\<close>

definition signature :: "Transaction \<Rightarrow> bytes option" where
  "signature tx = (case signatures tx of [] \<Rightarrow> None | (k, s) # rest \<Rightarrow> s)"

section \<open>lib/sessionKey.ts\<close>

definition SESSION_KEY_MESSAGE :: string where
  "SESSION_KEY_MESSAGE =
     ''Sign this message to generate your deterministic session key for the game. This key will be the same across all devices.''"

text \<open>
  The message is bound to \<open>window.location.origin\<close>, or to \<open>unknown\<close> outside a
  browser.
\<close>

definition messageText :: "string option \<Rightarrow> string" where
  "messageText window_origin =
     SESSION_KEY_MESSAGE @ [CHR 0x0A, CHR 0x0A] @ ''Origin: '' @
     (case window_origin of Some origin \<Rightarrow> origin | None \<Rightarrow> ''unknown'')"

definition memoInstruction :: "string \<Rightarrow> Instruction" where
  "memoInstruction text =
     \<lparr>keys = [], programId = ''MemoSq4gqABAXKb96qnH8TysNcWxMyWCqXgDLGmfcHr'',
      data = TextEncoder_encode text\<rparr>"

text \<open>
  The first half of \<open>deriveSessionKey\<close>: the signature comes from \<open>signMessage\<close> when the
  wallet has it, and otherwise from signing a memo transaction that is never sent, whose
  blockhash is the hash of the wallet key and the message.
\<close>

definition requestSignature :: "runtime \<Rightarrow> AnchorWallet \<Rightarrow> string \<Rightarrow> error + bytes" where
  "requestSignature R wallet text =
     (let messageBytes = TextEncoder_encode text in
      case signMessage wallet of
        Some signFn \<Rightarrow> signFn messageBytes
      | None \<Rightarrow>
          (let canonicalHash = sha256 R (toBuffer R (walletPublicKey wallet) @ messageBytes) in
           case new_PublicKey R canonicalHash of
             Inl e \<Rightarrow> Inl e
           | Inr canonicalKey \<Rightarrow>
               (case signTransaction wallet
                       \<lparr>feePayer = Some (walletPublicKey wallet),
                        recentBlockhash = Some canonicalKey,
                        instructions = [memoInstruction text],
                        signatures = []\<rparr> of
                  Inl e \<Rightarrow> Inl e
                | Inr signedTx \<Rightarrow>
                    (case signature signedTx of
                       None \<Rightarrow> Inl (Error ''Failed to get signature from wallet'')
                     | Some s \<Rightarrow> Inr s))))"

definition deriveSessionKey :: "runtime \<Rightarrow> AnchorWallet \<Rightarrow> string option \<Rightarrow> error + Keypair" where
  "deriveSessionKey R wallet window_origin =
     (let text = messageText window_origin;
          messageBytes = TextEncoder_encode text in
      case requestSignature R wallet text of
        Inl e \<Rightarrow> Inl e
      | Inr sig \<Rightarrow>
          (let combinedData = sig @ messageBytes;
               hash = sha256 R combinedData;
               seed = take 32 hash
           in Keypair_fromSeed R seed))"

definition cacheKey :: "PublicKey \<Rightarrow> string" where
  "cacheKey walletPubkey = ''session_key_'' @ walletPubkey"

text \<open>
  The cache read of \<open>getOrCreateSessionKey\<close>: an entry that is missing or empty is
  skipped, and one that fails to parse or to make a key pair is logged and skipped.
\<close>

definition loadCached :: "runtime \<Rightarrow> string option \<Rightarrow> Keypair option" where
  "loadCached R cached =
     (case cached of
        None \<Rightarrow> None
      | Some c \<Rightarrow>
          if c = [] then None
          else (case JSON_parse R c of
                  Inl e \<Rightarrow> None
                | Inr sk \<Rightarrow>
                    (case Keypair_fromSecretKey R sk of
                       Inl e \<Rightarrow> None
                     | Inr keypair \<Rightarrow> Some keypair)))"

text \<open>The cache write of \<open>getOrCreateSessionKey\<close>: the secret key, as JSON text.\<close>

definition storeCached :: "PublicKey \<Rightarrow> Keypair \<Rightarrow> Storage \<Rightarrow> Storage" where
  "storeCached walletPubkey k localStorage =
     localStorage(cacheKey walletPubkey \<mapsto> JSON_stringify (secretKey k))"

definition getOrCreateSessionKey ::
  "runtime \<Rightarrow> AnchorWallet \<Rightarrow> PublicKey \<Rightarrow> string option \<Rightarrow> Storage \<Rightarrow> (error + Keypair) \<times> Storage" where
  "getOrCreateSessionKey R wallet walletPubkey window_origin localStorage =
     (case loadCached R (localStorage (cacheKey walletPubkey)) of
        Some keypair \<Rightarrow> (Inr keypair, localStorage)
      | None \<Rightarrow>
          (case deriveSessionKey R wallet window_origin of
             Inl e \<Rightarrow> (Inl e, localStorage)
           | Inr k \<Rightarrow> (Inr k, storeCached walletPubkey k localStorage)))"

definition clearSessionKey :: "PublicKey \<Rightarrow> Storage \<Rightarrow> Storage" where
  "clearSessionKey walletPubkey localStorage = localStorage(cacheKey walletPubkey := None)"

definition hasSessionKey :: "PublicKey \<Rightarrow> Storage \<Rightarrow> bool" where
  "hasSessionKey walletPubkey localStorage = (localStorage (cacheKey walletPubkey) \<noteq> None)"

text \<open>
  What @solana/web3.js's legacy \<open>partialSign\<close> and versioned \<open>sign\<close> do to a
  transaction object. Both write the signature slots and nothing else. The legacy routine
  compiles the message from the fee payer, the blockhash and the instructions before it
  signs; how it lays out the slots is the library's business, so the slots it leaves
  behind (and the error it throws, if any) are a parameter. The versioned routine finds the
  signer among the required signers of the pre-built message and writes that one slot.
\<close>

type_synonym partialSigner =
  "Keypair \<Rightarrow> Transaction \<Rightarrow> error option \<times> (PublicKey \<times> bytes option) list"

definition Transaction_partialSign ::
  "partialSigner \<Rightarrow> Keypair \<Rightarrow> Transaction \<Rightarrow> error option \<times> Transaction" where
  "Transaction_partialSign compileAndSign signer tx =
     (case compileAndSign signer tx of
        (thrown, slots) \<Rightarrow> (thrown, tx\<lparr>signatures := slots\<rparr>))"

fun findIndex :: "('a \<Rightarrow> bool) \<Rightarrow> 'a list \<Rightarrow> nat option" where
  "findIndex P [] = None"
| "findIndex P (a # as) = (if P a then Some 0 else map_option Suc (findIndex P as))"

text \<open>Assigning to an array index: past the end, JavaScript extends the array with holes.\<close>

definition setSlot :: "'a list \<Rightarrow> nat \<Rightarrow> 'a \<Rightarrow> 'a \<Rightarrow> 'a list" where
  "setSlot slots i hole v =
     (if i < length slots then slots[i := v]
      else slots @ replicate (i - length slots) hole @ [v])"

fun VersionedTransaction_sign ::
  "runtime \<Rightarrow> Keypair list \<Rightarrow> VersionedTransaction \<Rightarrow> error option \<times> VersionedTransaction" where
  "VersionedTransaction_sign R [] tx = (None, tx)"
| "VersionedTransaction_sign R (signer # signers) tx =
     (let messageData = serializeVersioned R (message tx);
          signerPubkeys = take (numRequiredSignatures (message tx)) (staticAccountKeys (message tx))
      in case findIndex (\<lambda>pubkey. pubkey = publicKey signer) signerPubkeys of
           None \<Rightarrow> (Some (Error ''Cannot sign with non signer key''), tx)
         | Some signerIndex \<Rightarrow>
             VersionedTransaction_sign R signers
               (tx\<lparr>vsignatures :=
                     setSlot (vsignatures tx) signerIndex []
                       (sign_detached R messageData (secretKey signer))\<rparr>))"

text \<open>
  The class \<open>SessionWallet\<close>. \<open>signTransaction\<close> mutates the transaction it is given
  and returns it; the model returns the error thrown, if any, and the object as the call
  leaves it.
\<close>

record SessionWallet =
  mainWallet :: AnchorWallet
  walletSessionKey :: Keypair

definition SessionWallet_publicKey :: "SessionWallet \<Rightarrow> PublicKey" where
  "SessionWallet_publicKey sw = publicKey (walletSessionKey sw)"

definition SessionWallet_signMessage :: "runtime \<Rightarrow> SessionWallet \<Rightarrow> bytes \<Rightarrow> bytes" where
  "SessionWallet_signMessage R sw msg = sign_detached R msg (secretKey (walletSessionKey sw))"

definition SessionWallet_signTransaction ::
  "runtime \<Rightarrow> partialSigner \<Rightarrow> SessionWallet \<Rightarrow> AnyTransaction \<Rightarrow> error option \<times> AnyTransaction" where
  "SessionWallet_signTransaction R compileAndSign sw tx =
     (case tx of
        Versioned vtx \<Rightarrow>
          (case VersionedTransaction_sign R [walletSessionKey sw] vtx of
             (thrown, vtx') \<Rightarrow> (thrown, Versioned vtx'))
      | Legacy ltx \<Rightarrow>
          (let ltx1 = ltx\<lparr>feePayer := Some (publicKey (walletSessionKey sw))\<rparr> in
           case Transaction_partialSign compileAndSign (walletSessionKey sw) ltx1 of
             (thrown, ltx2) \<Rightarrow> (thrown, Legacy ltx2)))"

section \<open>The two ledgers\<close>

text \<open>
  The client talks to the base layer and to the Ephemeral Rollup. \<open>chain\<close> holds the
  answers the ledgers give during one call of a client function: an account lookup, the
  fetch and decoding of a player account, and the submission of a program instruction
  signed by the connected wallet. The airdrop that wakes an account on the rollup is
  recorded as a request; the client ignores its outcome.
\<close>

datatype Ledger = Base | ER

record AccountInfo =
  owner :: PublicKey
  lamports :: nat

record PlayerAccount =
  account_x :: int
  account_y :: int
  account_authority :: PublicKey
  account_sessionKey :: "PublicKey option"

datatype ProgramCall = RegisterSessionKey PublicKey | RevokeSessionKey

record chain =
  PROGRAM_ID :: PublicKey
  getPlayerPda :: "PublicKey \<Rightarrow> PublicKey"
  getAccountInfo :: "Ledger \<Rightarrow> PublicKey \<Rightarrow> error + AccountInfo option"
  fetchPlayer :: "Ledger \<Rightarrow> PublicKey \<Rightarrow> error + PlayerAccount"
  rpc :: "Ledger \<Rightarrow> ProgramCall \<Rightarrow> error + string"

datatype ToastKind = ToastSuccess | ToastError

datatype Event =
    GetAccountInfo Ledger PublicKey
  | FetchPlayer Ledger PublicKey
  | RequestAirdrop Ledger PublicKey
  | Rpc Ledger ProgramCall
  | Toast ToastKind string

text \<open>\<open>getConnectionForAccount\<close> of lib/anchor: the rollup for a delegated account.\<close>

definition getConnectionForAccount :: "bool \<Rightarrow> Ledger" where
  "getConnectionForAccount isDelegated = (if isDelegated then ER else Base)"

section \<open>components/GameBoard.tsx\<close>

record PlayerData =
  pos_x :: int
  pos_y :: int
  authority :: string
  playerSessionKey :: "string option"
  playerIsDelegated :: "bool option"

text \<open>
  The component's state: one snapshot per ledger, the delegation flag, and the two
  connection references, which are \<open>null\<close> until the component has mounted.
\<close>

record GameBoard =
  basePlayer :: "PlayerData option"
  erPlayer :: "PlayerData option"
  isDelegated :: bool
  baseConnection :: "Ledger option"
  erConnection :: "Ledger option"

text \<open>The player shown: \<^verbatim>\<open>const player = isDelegated ? erPlayer : basePlayer\<close>.\<close>

definition player :: "GameBoard \<Rightarrow> PlayerData option" where
  "player g = (if isDelegated g then erPlayer g else basePlayer g)"

text \<open>
  The snapshot built from a decoded account;
  \<^verbatim>\<open>sessionKey?.toString() || null\<close> turns an empty text into \<open>null\<close> too.
\<close>

definition toPlayerData :: "PlayerAccount \<Rightarrow> bool \<Rightarrow> PlayerData" where
  "toPlayerData account delegatedHere =
     \<lparr>pos_x = account_x account, pos_y = account_y account,
      authority = account_authority account,
      playerSessionKey =
        (case account_sessionKey account of
           None \<Rightarrow> None
         | Some k \<Rightarrow> if k = [] then None else Some k),
      playerIsDelegated = Some delegatedHere\<rparr>"

definition notJoined :: "GameBoard \<Rightarrow> GameBoard" where
  "notJoined g = g\<lparr>basePlayer := None, erPlayer := None, isDelegated := False\<rparr>"

text \<open>
  \<open>fetchPlayerData\<close>, with the connected wallet and its public key (absent when no
  wallet is connected). It returns the new state and the ledger requests it made, in
  order.
\<close>

definition fetchPlayerData ::
  "chain \<Rightarrow> AnchorWallet option \<Rightarrow> PublicKey option \<Rightarrow> GameBoard \<Rightarrow> GameBoard \<times> Event list" where
  "fetchPlayerData C wallet walletKey g =
     (case (wallet, walletKey, baseConnection g) of
        (Some w, Some pk, Some base) \<Rightarrow>
          (let playerPda = getPlayerPda C pk in
           case getAccountInfo C base playerPda of
             Inl e \<Rightarrow> (notJoined g, [GetAccountInfo base playerPda])
           | Inr None \<Rightarrow> (notJoined g, [GetAccountInfo base playerPda])
           | Inr (Some accountInfo) \<Rightarrow>
               (let delegated = (owner accountInfo \<noteq> PROGRAM_ID C);
                    g1 = g\<lparr>isDelegated := delegated\<rparr>;
                    g2 = (case fetchPlayer C base playerPda of
                            Inl e \<Rightarrow> g1
                          | Inr playerAccount \<Rightarrow>
                              g1\<lparr>basePlayer := Some (toPlayerData playerAccount False)\<rparr>)
                in case (if delegated then erConnection g else None) of
                     Some er \<Rightarrow>
                       (case fetchPlayer C er playerPda of
                          Inl e \<Rightarrow> g2
                        | Inr erPlayerAccount \<Rightarrow>
                            g2\<lparr>erPlayer := Some (toPlayerData erPlayerAccount True)\<rparr>,
                        [GetAccountInfo base playerPda, FetchPlayer base playerPda,
                         RequestAirdrop er playerPda, FetchPlayer er playerPda])
                   | None \<Rightarrow>
                       (g2\<lparr>erPlayer := None\<rparr>,
                        [GetAccountInfo base playerPda, FetchPlayer base playerPda])))
      | _ \<Rightarrow> (g, []))"

section \<open>hooks/useSessionKey.ts, the version with live delegation reads\<close>

text \<open>
  The hook's state variables, together with the browser's \<open>localStorage\<close> and the
  requests and notifications issued so far. \<open>hookIsDelegated\<close> is the hook's own
  \<open>isDelegated\<close> variable, the cached flag.
\<close>

record Hook =
  sessionKey :: "Keypair option"
  sessionWallet :: "SessionWallet option"
  isRegistered :: bool
  loading :: bool
  hookIsDelegated :: bool
  localStorage :: Storage
  events :: "Event list"

text \<open>What the hook is given: the connected wallet, its key, and the page's origin.\<close>

record Session =
  wallet :: "AnchorWallet option"
  walletKey :: "PublicKey option"
  window_origin :: "string option"

definition emit :: "Event list \<Rightarrow> Hook \<Rightarrow> Hook" where
  "emit es h = h\<lparr>events := events h @ es\<rparr>"

definition getCurrentDelegationStatus :: "chain \<Rightarrow> Session \<Rightarrow> Hook \<Rightarrow> bool \<times> Hook" where
  "getCurrentDelegationStatus C S h =
     (case (wallet S, walletKey S) of
        (Some w, Some pk) \<Rightarrow>
          (let playerPda = getPlayerPda C pk;
               h1 = emit [GetAccountInfo Base playerPda] h
           in case getAccountInfo C Base playerPda of
                Inl e \<Rightarrow> (False, h1)
              | Inr None \<Rightarrow> (False, h1)
              | Inr (Some accountInfo) \<Rightarrow> (owner accountInfo \<noteq> PROGRAM_ID C, h1))
      | _ \<Rightarrow> (False, h))"

definition createSessionKey ::
  "runtime \<Rightarrow> Session \<Rightarrow> Hook \<Rightarrow> Keypair option \<times> Hook" where
  "createSessionKey R S h =
     (case (wallet S, walletKey S) of
        (Some w, Some pk) \<Rightarrow>
          (let h1 = h\<lparr>loading := True\<rparr> in
           case getOrCreateSessionKey R w pk (window_origin S) (localStorage h1) of
             (Inr key, store) \<Rightarrow>
               (Some key,
                (emit [Toast ToastSuccess ''Session key created'']
                   (h1\<lparr>localStorage := store, sessionKey := Some key,
                       sessionWallet := Some \<lparr>mainWallet = w, walletSessionKey = key\<rparr>\<rparr>))
                \<lparr>loading := False\<rparr>)
           | (Inl e, store) \<Rightarrow>
               (None,
                (emit [Toast ToastError ''Failed to create session key'']
                   (h1\<lparr>localStorage := store\<rparr>))
                \<lparr>loading := False\<rparr>))
      | _ \<Rightarrow> (None, emit [Toast ToastError ''Wallet not connected''] h))"

definition registerSessionKey ::
  "runtime \<Rightarrow> chain \<Rightarrow> Session \<Rightarrow> Hook \<Rightarrow> bool \<times> Hook" where
  "registerSessionKey R C S h =
     (case (wallet S, walletKey S) of
        (Some w, Some pk) \<Rightarrow>
          (let h1 = h\<lparr>loading := True\<rparr>;
               (created, h2) = (case sessionKey h1 of
                                  Some key \<Rightarrow> (Some key, h1)
                                | None \<Rightarrow> createSessionKey R S h1)
           in case created of
                None \<Rightarrow> (False, h2\<lparr>loading := False\<rparr>)
              | Some key \<Rightarrow>
                  (let (currentlyDelegated, h3) = getCurrentDelegationStatus C S h2;
                       connection = getConnectionForAccount currentlyDelegated;
                       call = RegisterSessionKey (publicKey key);
                       h4 = emit [Rpc connection call] h3
                   in case rpc C connection call of
                        Inr tx \<Rightarrow>
                          (True,
                           (emit [Toast ToastSuccess
                                    (''Session key registered'' @
                                     (if currentlyDelegated then '' on ER'' else '' on base layer'') @
                                     ''!'')] h4)
                           \<lparr>isRegistered := True, hookIsDelegated := currentlyDelegated,
                            loading := False\<rparr>)
                      | Inl e \<Rightarrow>
                          (False,
                           (emit [Toast ToastError ''Failed to register session key''] h4)
                           \<lparr>loading := False\<rparr>)))
      | _ \<Rightarrow> (False, emit [Toast ToastError ''Wallet not connected''] h))"

definition revokeSessionKey :: "chain \<Rightarrow> Session \<Rightarrow> Hook \<Rightarrow> bool \<times> Hook" where
  "revokeSessionKey C S h =
     (case (wallet S, walletKey S) of
        (Some w, Some pk) \<Rightarrow>
          (let h1 = h\<lparr>loading := True\<rparr>;
               (currentlyDelegated, h2) = getCurrentDelegationStatus C S h1;
               connection = getConnectionForAccount currentlyDelegated;
               h3 = emit [Rpc connection RevokeSessionKey] h2
           in case rpc C connection RevokeSessionKey of
                Inr tx \<Rightarrow>
                  (True,
                   (emit [Toast ToastSuccess
                            (''Session key revoked'' @
                             (if currentlyDelegated then '' on ER'' else '' on base layer''))] h3)
                   \<lparr>localStorage := clearSessionKey pk (localStorage h3),
                    sessionKey := None, sessionWallet := None, isRegistered := False,
                    loading := False\<rparr>)
              | Inl e \<Rightarrow>
                  (False,
                   (emit [Toast ToastError ''Failed to revoke session key''] h3)
                   \<lparr>loading := False\<rparr>))
      | _ \<Rightarrow> (False, emit [Toast ToastError ''Wallet not connected''] h))"

definition clearSessionOnUndelegate :: "Session \<Rightarrow> Hook \<Rightarrow> Hook" where
  "clearSessionOnUndelegate S h =
     (case walletKey S of
        Some pk \<Rightarrow>
          h\<lparr>localStorage := clearSessionKey pk (localStorage h),
            sessionKey := None, sessionWallet := None, isRegistered := False\<rparr>
      | None \<Rightarrow> h)"

section \<open>Observing a call\<close>

text \<open>The requests and notifications a call added to the log it started from.\<close>

definition newEvents :: "Hook \<Rightarrow> Hook \<Rightarrow> Event list" where
  "newEvents before after = drop (length (events before)) (events after)"

text \<open>The fee payer of a transaction: the legacy field, or the first key of a pre-built message.\<close>

fun feePayerOf :: "AnyTransaction \<Rightarrow> PublicKey option" where
  "feePayerOf (Legacy ltx) = feePayer ltx"
| "feePayerOf (Versioned vtx) =
     (case staticAccountKeys (message vtx) of [] \<Rightarrow> None | k # rest \<Rightarrow> Some k)"

section \<open>Sample data\<close>

abbreviation snapshot55 :: PlayerData where
  "snapshot55 \<equiv> \<lparr>pos_x = 5, pos_y = 5, authority = ''Alice'', playerSessionKey = None,
                  playerIsDelegated = Some False\<rparr>"

abbreviation snapshot77 :: PlayerData where
  "snapshot77 \<equiv> \<lparr>pos_x = 7, pos_y = 7, authority = ''Alice'', playerSessionKey = None,
                  playerIsDelegated = Some True\<rparr>"

abbreviation board :: "PlayerData option \<Rightarrow> PlayerData option \<Rightarrow> bool \<Rightarrow> GameBoard" where
  "board primary rollup flag \<equiv>
     \<lparr>basePlayer = primary, erPlayer = rollup, isDelegated = flag,
      baseConnection = Some Base, erConnection = Some ER\<rparr>"

abbreviation sampleKey :: Keypair where
  "sampleKey \<equiv> \<lparr>publicKey = ''SessionPubkey'', secretKey = [1, 2, 3]\<rparr>"

abbreviation sampleWallet :: AnchorWallet where
  "sampleWallet \<equiv>
     \<lparr>walletPublicKey = ''Alice'', signMessage = None,
      signTransaction = (\<lambda>tx. Inl (Error ''User rejected the request''))\<rparr>"

abbreviation sampleSession :: Session where
  "sampleSession \<equiv>
     \<lparr>wallet = Some sampleWallet, walletKey = Some ''Alice'',
      window_origin = Some ''https://game.example''\<rparr>"

text \<open>
  A ledger pair that answers every account lookup with \<open>lookup\<close> and every submission
  with \<open>answer\<close>.
\<close>

abbreviation accountOwnedBy :: "PublicKey \<Rightarrow> error + AccountInfo option" where
  "accountOwnedBy k \<equiv> Inr (Some \<lparr>owner = k, lamports = 1\<rparr>)"

abbreviation sampleChain :: "error + AccountInfo option \<Rightarrow> error + string \<Rightarrow> chain" where
  "sampleChain lookup answer \<equiv>
     \<lparr>PROGRAM_ID = ''Program'', getPlayerPda = (\<lambda>k. k @ ''.player''),
      getAccountInfo = (\<lambda>l a. lookup),
      fetchPlayer = (\<lambda>l a. Inl (Error ''Account does not exist'')),
      rpc = (\<lambda>l c. answer)\<rparr>"

text \<open>
  Stand-ins for the library functions, small enough to evaluate: the hash pads or cuts to
  32 bytes, the public key of a seed is the seed reversed, and key text has one character
  for each byte.
\<close>

abbreviation sampleRuntime :: "(string \<Rightarrow> error + bytes) \<Rightarrow> runtime" where
  "sampleRuntime parse \<equiv>
     \<lparr>sha256 = (\<lambda>b. take 32 (b @ replicate 32 0)),
      getPublicKey = (\<lambda>seed. rev (take 32 seed)),
      sign_detached = (\<lambda>m sk. take 64 (sk @ m)),
      toBase58 = (\<lambda>b. map (\<lambda>x. if x = 7 then CHR ''7'' else CHR ''k'') (take 32 b)),
      toBuffer = (\<lambda>k. TextEncoder_encode (take 32 k)),
      JSON_parse = parse,
      serializeVersioned = (\<lambda>m. TextEncoder_encode (concat (staticAccountKeys m)))\<rparr>"

abbreviation noParse :: "string \<Rightarrow> error + bytes" where
  "noParse \<equiv> (\<lambda>text. Inl (Error ''Unexpected token''))"

text \<open>A hook holding a session key that is also in the cache.\<close>

abbreviation activeHook :: Hook where
  "activeHook \<equiv>
     \<lparr>sessionKey = Some sampleKey,
      sessionWallet = Some \<lparr>mainWallet = sampleWallet, walletSessionKey = sampleKey\<rparr>,
      isRegistered = True, loading = False, hookIsDelegated = False,
      localStorage = [cacheKey ''Alice'' \<mapsto> ''[1,2,3]''], events = []\<rparr>"

text \<open>
  Two signers of the same identity that hand back the same signature: one signs messages,
  the other only transactions.
\<close>

abbreviation messageWallet :: "bytes \<Rightarrow> AnchorWallet" where
  "messageWallet sig \<equiv>
     \<lparr>walletPublicKey = ''Alice'', signMessage = Some (\<lambda>m. Inr sig),
      signTransaction = (\<lambda>tx. Inl (Error ''User rejected the request''))\<rparr>"

abbreviation transactionWallet :: "bytes \<Rightarrow> AnchorWallet" where
  "transactionWallet sig \<equiv>
     \<lparr>walletPublicKey = ''Alice'', signMessage = None,
      signTransaction = (\<lambda>tx. Inr (tx\<lparr>signatures := [(''Alice'', Some sig)]\<rparr>))\<rparr>"

text \<open>
  A session wallet, a stand-in for the legacy signing routine that fills one slot, a legacy
  transfer with a chosen fee payer, and a pre-built versioned transaction that names the
  session key as its second signer.
\<close>

abbreviation sampleSessionWallet :: SessionWallet where
  "sampleSessionWallet \<equiv> \<lparr>mainWallet = sampleWallet, walletSessionKey = sampleKey\<rparr>"

abbreviation sampleSigner :: partialSigner where
  "sampleSigner \<equiv> (\<lambda>signer tx. (None, [(publicKey signer, Some (secretKey signer @ [9]))]))"

abbreviation transferPaidBy :: "PublicKey \<Rightarrow> Transaction" where
  "transferPaidBy payer \<equiv>
     \<lparr>feePayer = Some payer, recentBlockhash = Some ''blockhash'',
      instructions = [\<lparr>keys = [(''Alice'', True, True), (''Bob'', False, True)],
                       programId = ''11111111111111111111111111111111'', data = [2, 0, 0, 0]\<rparr>],
      signatures = []\<rparr>"

abbreviation prebuilt :: VersionedTransaction where
  "prebuilt \<equiv>
     \<lparr>message = \<lparr>staticAccountKeys = [''Alice'', ''SessionPubkey'', ''Program''],
                  numRequiredSignatures = 2, messageBlockhash = ''blockhash'',
                  compiledInstructions = [(2, [0, 1], [7])]\<rparr>,
      vsignatures = [[0], [0]]\<rparr>"

text \<open>
  A parser that reads byte arrays and rejects every other text, and a key pair that is well
  formed for the stand-in key derivation.
\<close>

abbreviation arrayParser :: "string \<Rightarrow> error + bytes" where
  "arrayParser \<equiv>
     (\<lambda>text. case parseByteArray text of
        Some b \<Rightarrow> Inr b
      | None \<Rightarrow> Inl (Error ''Unexpected token''))"

abbreviation wellKey :: Keypair where
  "wellKey \<equiv> \<lparr>publicKey = replicate 32 (CHR ''7''), secretKey = replicate 64 7\<rparr>"

section \<open>Properties\<close>

subsection \<open>The player shown\<close>

text \<open>
  C2, as stated, fails: with the delegation flag set and no rollup snapshot, the player
  shown is absent, not the primary snapshot \<open>{5,5}\<close>.
\<close>

theorem player_delegated_without_rollup_counterexample:
  "isDelegated (board (Some snapshot55) None True)
   \<and> erPlayer (board (Some snapshot55) None True) = None
   \<and> player (board (Some snapshot55) None True) = None
   \<and> player (board (Some snapshot55) None True) \<noteq> basePlayer (board (Some snapshot55) None True)"
  by (simp add: player_def)

text \<open>
  C2, amended: the player shown is the rollup snapshot, present or not, whenever the
  delegation flag is set, and the primary snapshot whenever it is not.
\<close>

theorem player_follows_flag:
  "(isDelegated g \<longrightarrow> player g = erPlayer g) \<and> (\<not> isDelegated g \<longrightarrow> player g = basePlayer g)"
  by (simp add: player_def)

text \<open>The snapshots \<open>{5,5}\<close> and \<open>{7,7}\<close>: \<open>{7,7}\<close> is shown when delegated, \<open>{5,5}\<close> when not.\<close>

theorem player_follows_flag_witness:
  "player (board (Some snapshot55) (Some snapshot77) True) = Some snapshot77
   \<and> player (board (Some snapshot55) (Some snapshot77) False) = Some snapshot55"
  using player_follows_flag [of "board (Some snapshot55) (Some snapshot77) True"]
        player_follows_flag [of "board (Some snapshot55) (Some snapshot77) False"]
  by simp

subsection \<open>The live delegation read and the event log\<close>

lemma emit_fields [simp]:
  "sessionKey (emit es h) = sessionKey h"
  "sessionWallet (emit es h) = sessionWallet h"
  "isRegistered (emit es h) = isRegistered h"
  "loading (emit es h) = loading h"
  "hookIsDelegated (emit es h) = hookIsDelegated h"
  "localStorage (emit es h) = localStorage h"
  "events (emit es h) = events h @ es"
  by (simp_all add: emit_def)

lemma getCurrentDelegationStatus_value:
  "fst (getCurrentDelegationStatus C S h) =
     (case (wallet S, walletKey S) of
        (Some w, Some pk) \<Rightarrow>
          (case getAccountInfo C Base (getPlayerPda C pk) of
             Inr (Some accountInfo) \<Rightarrow> owner accountInfo \<noteq> PROGRAM_ID C
           | _ \<Rightarrow> False)
      | _ \<Rightarrow> False)"
  by (simp add: getCurrentDelegationStatus_def Let_def split: option.splits sum.splits)

lemma getCurrentDelegationStatus_state:
  "snd (getCurrentDelegationStatus C S h) =
     (case (wallet S, walletKey S) of
        (Some w, Some pk) \<Rightarrow> emit [GetAccountInfo Base (getPlayerPda C pk)] h
      | _ \<Rightarrow> h)"
  by (simp add: getCurrentDelegationStatus_def Let_def split: option.splits sum.splits)

subsection \<open>Revoking the session key\<close>

text \<open>
  C1, as stated, fails: when the ledger rejects the revoke instruction, the hook reports
  the failure and keeps the session key, the session wallet and the cache entry.
\<close>

theorem revokeSessionKey_failed_submission_counterexample:
  "rpc (sampleChain (accountOwnedBy ''Program'') (Inl (Error ''Transaction simulation failed''))) Base RevokeSessionKey
     = Inl (Error ''Transaction simulation failed'')
   \<and> Rpc Base RevokeSessionKey
       \<in> set (events (snd (revokeSessionKey
                              (sampleChain (accountOwnedBy ''Program'') (Inl (Error ''Transaction simulation failed'')))
                              sampleSession activeHook)))
   \<and> sessionKey (snd (revokeSessionKey
                         (sampleChain (accountOwnedBy ''Program'') (Inl (Error ''Transaction simulation failed'')))
                         sampleSession activeHook)) = Some sampleKey
   \<and> sessionWallet (snd (revokeSessionKey
                            (sampleChain (accountOwnedBy ''Program'') (Inl (Error ''Transaction simulation failed'')))
                            sampleSession activeHook)) \<noteq> None
   \<and> localStorage (snd (revokeSessionKey
                           (sampleChain (accountOwnedBy ''Program'') (Inl (Error ''Transaction simulation failed'')))
                           sampleSession activeHook)) (cacheKey ''Alice'') = Some ''[1,2,3]''"
  by (simp add: revokeSessionKey_def getCurrentDelegationStatus_def getConnectionForAccount_def
        Let_def)

text \<open>
  C1, amended: for every \<open>revokeSessionKey\<close> call with a connected primary identity, the
  cache entry, the in-memory session key and the session wallet are cleared when the
  revoke submission succeeds on the ledger chosen by the live read; when the submission
  fails, the call reports failure and leaves all three as they were.
\<close>

theorem revokeSessionKey_clears_on_success:
  assumes "wallet S = Some w" and "walletKey S = Some pk"
  shows "case rpc C (getConnectionForAccount (fst (getCurrentDelegationStatus C S h)))
                RevokeSessionKey of
           Inr tx \<Rightarrow>
             fst (revokeSessionKey C S h)
             \<and> localStorage (snd (revokeSessionKey C S h)) (cacheKey pk) = None
             \<and> \<not> hasSessionKey pk (localStorage (snd (revokeSessionKey C S h)))
             \<and> sessionKey (snd (revokeSessionKey C S h)) = None
             \<and> sessionWallet (snd (revokeSessionKey C S h)) = None
         | Inl e \<Rightarrow>
             \<not> fst (revokeSessionKey C S h)
             \<and> localStorage (snd (revokeSessionKey C S h)) = localStorage h
             \<and> sessionKey (snd (revokeSessionKey C S h)) = sessionKey h
             \<and> sessionWallet (snd (revokeSessionKey C S h)) = sessionWallet h"
proof -
  obtain live h2 where g: "getCurrentDelegationStatus C S (h\<lparr>loading := True\<rparr>) = (live, h2)"
    by (cases "getCurrentDelegationStatus C S (h\<lparr>loading := True\<rparr>)")
  have live: "fst (getCurrentDelegationStatus C S h) = live"
    using g getCurrentDelegationStatus_value [of C S h]
      getCurrentDelegationStatus_value [of C S "h\<lparr>loading := True\<rparr>"] by simp
  have h2: "h2 = emit [GetAccountInfo Base (getPlayerPda C pk)] (h\<lparr>loading := True\<rparr>)"
    using g getCurrentDelegationStatus_state [of C S "h\<lparr>loading := True\<rparr>"] assms by simp
  show ?thesis
    using assms g
    by (simp add: live h2 revokeSessionKey_def Let_def clearSessionKey_def hasSessionKey_def
             split: sum.splits)
qed

text \<open>A connected wallet, a cached key and a ledger that accepts the revoke.\<close>

theorem revokeSessionKey_clears_on_success_witness:
  "wallet sampleSession = Some sampleWallet \<and> walletKey sampleSession = Some ''Alice''
   \<and> fst (revokeSessionKey (sampleChain (accountOwnedBy ''Program'') (Inr ''tx1'')) sampleSession activeHook)
   \<and> localStorage (snd (revokeSessionKey (sampleChain (accountOwnedBy ''Program'') (Inr ''tx1'')) sampleSession activeHook))
        (cacheKey ''Alice'') = None
   \<and> sessionKey (snd (revokeSessionKey (sampleChain (accountOwnedBy ''Program'') (Inr ''tx1'')) sampleSession activeHook))
        = None
   \<and> sessionWallet (snd (revokeSessionKey (sampleChain (accountOwnedBy ''Program'') (Inr ''tx1'')) sampleSession activeHook))
        = None"
proof -
  have connected:
    "wallet sampleSession = Some sampleWallet" "walletKey sampleSession = Some ''Alice''"
    by simp_all
  show ?thesis
    using connected
      revokeSessionKey_clears_on_success
        [OF connected, of "sampleChain (accountOwnedBy ''Program'') (Inr ''tx1'')" activeHook]
    by simp
qed

subsection \<open>What the hook's calls do when a wallet is connected\<close>

lemma newEvents_emit [simp]: "newEvents h (emit es h) = es"
  by (simp add: newEvents_def)

lemma newEvents_append: "events h' = events h @ es \<Longrightarrow> newEvents h h' = es"
  by (simp add: newEvents_def)

lemma not_connected:
  assumes "wallet S = None \<or> walletKey S = None"
  shows "getCurrentDelegationStatus C S h = (False, h)"
    and "revokeSessionKey C S h = (False, emit [Toast ToastError ''Wallet not connected''] h)"
    and "registerSessionKey R C S h = (False, emit [Toast ToastError ''Wallet not connected''] h)"
  using assms
  by (auto simp add: getCurrentDelegationStatus_def revokeSessionKey_def registerSessionKey_def
      split: option.splits)

lemma createSessionKey_connected:
  assumes "wallet S = Some w" and "walletKey S = Some pk"
  shows "createSessionKey R S h =
           (case getOrCreateSessionKey R w pk (window_origin S) (localStorage h) of
              (Inr key, store) \<Rightarrow>
                (Some key,
                 h\<lparr>sessionKey := Some key,
                   sessionWallet := Some \<lparr>mainWallet = w, walletSessionKey = key\<rparr>,
                   loading := False, localStorage := store,
                   events := events h @ [Toast ToastSuccess ''Session key created'']\<rparr>)
            | (Inl e, store) \<Rightarrow>
                (None,
                 h\<lparr>loading := False, localStorage := store,
                   events := events h @ [Toast ToastError ''Failed to create session key'']\<rparr>))"
  using assms
  by (simp add: createSessionKey_def emit_def Let_def split: prod.splits sum.splits)

lemma getCurrentDelegationStatus_connected:
  assumes "wallet S = Some w" and "walletKey S = Some pk"
  shows "getCurrentDelegationStatus C S h =
           (case getAccountInfo C Base (getPlayerPda C pk) of
              Inr (Some accountInfo) \<Rightarrow> owner accountInfo \<noteq> PROGRAM_ID C
            | _ \<Rightarrow> False,
            h\<lparr>events := events h @ [GetAccountInfo Base (getPlayerPda C pk)]\<rparr>)"
  using assms
  by (simp add: getCurrentDelegationStatus_def emit_def Let_def split: option.splits sum.splits)

lemma registerSessionKey_held:
  assumes "wallet S = Some w" and "walletKey S = Some pk" and "sessionKey h = Some key"
  shows "registerSessionKey R C S h =
     (let currentlyDelegated =
            (case getAccountInfo C Base (getPlayerPda C pk) of
               Inr (Some accountInfo) \<Rightarrow> owner accountInfo \<noteq> PROGRAM_ID C
             | _ \<Rightarrow> False);
          connection = getConnectionForAccount currentlyDelegated;
          call = RegisterSessionKey (publicKey key);
          h4 = h\<lparr>loading := True,
                 events := events h @ [GetAccountInfo Base (getPlayerPda C pk), Rpc connection call]\<rparr>
      in case rpc C connection call of
           Inr tx \<Rightarrow>
             (True,
              h4\<lparr>isRegistered := True, hookIsDelegated := currentlyDelegated, loading := False,
                 events := events h4 @
                   [Toast ToastSuccess
                      (''Session key registered'' @
                       (if currentlyDelegated then '' on ER'' else '' on base layer'') @ ''!'')]\<rparr>)
         | Inl e \<Rightarrow>
             (False,
              h4\<lparr>loading := False,
                 events := events h4 @ [Toast ToastError ''Failed to register session key'']\<rparr>))"
  using assms
  by (simp add: registerSessionKey_def getCurrentDelegationStatus_connected [OF assms(1,2)]
        emit_def Let_def split: sum.splits)

lemma registerSessionKey_fresh:
  assumes "wallet S = Some w" and "walletKey S = Some pk" and "sessionKey h = None"
  shows "registerSessionKey R C S h =
     (case getOrCreateSessionKey R w pk (window_origin S) (localStorage h) of
        (Inl e, store) \<Rightarrow>
          (False,
           h\<lparr>loading := False, localStorage := store,
             events := events h @ [Toast ToastError ''Failed to create session key'']\<rparr>)
      | (Inr key, store) \<Rightarrow>
          (let currentlyDelegated =
                 (case getAccountInfo C Base (getPlayerPda C pk) of
                    Inr (Some accountInfo) \<Rightarrow> owner accountInfo \<noteq> PROGRAM_ID C
                  | _ \<Rightarrow> False);
               connection = getConnectionForAccount currentlyDelegated;
               call = RegisterSessionKey (publicKey key);
               h4 = h\<lparr>sessionKey := Some key,
                      sessionWallet := Some \<lparr>mainWallet = w, walletSessionKey = key\<rparr>,
                      loading := False, localStorage := store,
                      events := events h @
                        [Toast ToastSuccess ''Session key created'',
                         GetAccountInfo Base (getPlayerPda C pk), Rpc connection call]\<rparr>
           in case rpc C connection call of
                Inr tx \<Rightarrow>
                  (True,
                   h4\<lparr>isRegistered := True, hookIsDelegated := currentlyDelegated,
                      events := events h4 @
                        [Toast ToastSuccess
                           (''Session key registered'' @
                            (if currentlyDelegated then '' on ER'' else '' on base layer'') @ ''!'')]\<rparr>)
              | Inl e \<Rightarrow>
                  (False,
                   h4\<lparr>events := events h4 @ [Toast ToastError ''Failed to register session key'']\<rparr>)))"
proof (cases "getOrCreateSessionKey R w pk (window_origin S) (localStorage h)")
  case (Pair result store)
  show ?thesis
  proof (cases result)
    case (Inl e)
    with Pair assms show ?thesis
      by (simp add: registerSessionKey_def createSessionKey_connected [OF assms(1,2)])
  next
    case (Inr key)
    with Pair assms show ?thesis
      by (simp add: registerSessionKey_def createSessionKey_connected [OF assms(1,2)]
            getCurrentDelegationStatus_connected [OF assms(1,2)] emit_def Let_def
          split: sum.splits)
  qed
qed

lemma revokeSessionKey_connected:
  assumes "wallet S = Some w" and "walletKey S = Some pk"
  shows "revokeSessionKey C S h =
     (let currentlyDelegated =
            (case getAccountInfo C Base (getPlayerPda C pk) of
               Inr (Some accountInfo) \<Rightarrow> owner accountInfo \<noteq> PROGRAM_ID C
             | _ \<Rightarrow> False);
          connection = getConnectionForAccount currentlyDelegated;
          h3 = h\<lparr>loading := True,
                 events := events h @
                   [GetAccountInfo Base (getPlayerPda C pk), Rpc connection RevokeSessionKey]\<rparr>
      in case rpc C connection RevokeSessionKey of
           Inr tx \<Rightarrow>
             (True,
              h3\<lparr>sessionKey := None, sessionWallet := None, isRegistered := False,
                 loading := False, localStorage := clearSessionKey pk (localStorage h),
                 events := events h3 @
                   [Toast ToastSuccess
                      (''Session key revoked'' @
                       (if currentlyDelegated then '' on ER'' else '' on base layer''))]\<rparr>)
         | Inl e \<Rightarrow>
             (False,
              h3\<lparr>loading := False,
                 events := events h3 @ [Toast ToastError ''Failed to revoke session key'']\<rparr>))"
  using assms
  by (simp add: revokeSessionKey_def getCurrentDelegationStatus_connected [OF assms]
        emit_def Let_def split: sum.splits)

subsection \<open>Registering the session key\<close>

text \<open>
  C5: with a connected primary identity, \<open>registerSessionKey\<close> first obtains a session
  key, the one held or else the one \<open>getOrCreateSessionKey\<close> loads or derives (announced by
  its notification); then it reads the player account's owner on the base layer; then it
  submits the register instruction, carrying the session public key, to the rollup if that
  owner is not the program and to the base layer otherwise. The requests do not depend on
  the hook's cached delegation flag. If no key can be obtained, it stops without reading
  or submitting anything.
\<close>

theorem registerSessionKey_order:
  assumes "wallet S = Some w" and "walletKey S = Some pk"
  shows "case (case sessionKey h of
                 Some held \<Rightarrow> Inr held
               | None \<Rightarrow> fst (getOrCreateSessionKey R w pk (window_origin S) (localStorage h))) of
           Inr key \<Rightarrow>
             (\<exists>toast.
                newEvents h (snd (registerSessionKey R C S h)) =
                  (if sessionKey h = None then [Toast ToastSuccess ''Session key created''] else [])
                  @ [GetAccountInfo Base (getPlayerPda C pk),
                     Rpc (getConnectionForAccount
                            (case getAccountInfo C Base (getPlayerPda C pk) of
                               Inr (Some accountInfo) \<Rightarrow> owner accountInfo \<noteq> PROGRAM_ID C
                             | _ \<Rightarrow> False))
                         (RegisterSessionKey (publicKey key)),
                     toast])
             \<and> newEvents (h\<lparr>hookIsDelegated := cached\<rparr>)
                          (snd (registerSessionKey R C S (h\<lparr>hookIsDelegated := cached\<rparr>)))
                 = newEvents h (snd (registerSessionKey R C S h))
         | Inl e \<Rightarrow>
             \<not> fst (registerSessionKey R C S h)
             \<and> newEvents h (snd (registerSessionKey R C S h))
                 = [Toast ToastError ''Failed to create session key'']"
proof (cases "sessionKey h")
  case (Some held)
  then have 1: "sessionKey (h\<lparr>hookIsDelegated := cached\<rparr>) = Some held" by simp
  show ?thesis
    using Some
    by (simp add: registerSessionKey_held [OF assms Some] registerSessionKey_held [OF assms 1]
          newEvents_def Let_def split: sum.splits)
next
  case None
  then have 1: "sessionKey (h\<lparr>hookIsDelegated := cached\<rparr>) = None" by simp
  obtain result store where
    g: "getOrCreateSessionKey R w pk (window_origin S) (localStorage h) = (result, store)"
    by (cases "getOrCreateSessionKey R w pk (window_origin S) (localStorage h)")
  show ?thesis
    using None g
    by (cases result)
       (simp_all add: registerSessionKey_fresh [OF assms None] registerSessionKey_fresh [OF assms 1]
          newEvents_def Let_def split: sum.splits)
qed

text \<open>A held key and an account owned by the delegation program: the submission goes to the rollup.\<close>

theorem registerSessionKey_order_witness:
  "wallet sampleSession = Some sampleWallet \<and> walletKey sampleSession = Some ''Alice''
   \<and> take 2 (newEvents activeHook
         (snd (registerSessionKey (sampleRuntime noParse)
                 (sampleChain (accountOwnedBy ''DelegationProgram'') (Inr ''tx2''))
                 sampleSession activeHook)))
       = [GetAccountInfo Base ''Alice.player'', Rpc ER (RegisterSessionKey ''SessionPubkey'')]"
proof -
  have connected:
    "wallet sampleSession = Some sampleWallet" "walletKey sampleSession = Some ''Alice''"
    by simp_all
  show ?thesis
    using connected
      registerSessionKey_order
        [OF connected, where h = activeHook and R = "sampleRuntime noParse"
           and C = "sampleChain (accountOwnedBy ''DelegationProgram'') (Inr ''tx2'')"
           and cached = False]
    by (auto simp add: getConnectionForAccount_def)
qed

subsection \<open>A live read that fails\<close>

text \<open>
  C10: the live delegation read answers false whenever the wallet is not connected, the
  player account does not exist on the base layer, or the lookup throws. Consequently, after
  such a read, every submission made by \<open>revokeSessionKey\<close> or \<open>registerSessionKey\<close>
  goes to the base layer, never to the rollup; with a connected wallet the revoke is
  submitted there, and so is the register instruction of a held key.
\<close>

theorem failed_live_read_routes_to_base:
  assumes "wallet S = None \<or> walletKey S = None
           \<or> (\<exists>pk. walletKey S = Some pk
                  \<and> (getAccountInfo C Base (getPlayerPda C pk) = Inr None
                     \<or> (\<exists>e. getAccountInfo C Base (getPlayerPda C pk) = Inl e)))"
  shows "\<not> fst (getCurrentDelegationStatus C S h)
         \<and> (\<forall>l c. Rpc l c \<in> set (newEvents h (snd (revokeSessionKey C S h))) \<longrightarrow> l = Base)
         \<and> (\<forall>l c. Rpc l c \<in> set (newEvents h (snd (registerSessionKey R C S h))) \<longrightarrow> l = Base)
         \<and> (wallet S \<noteq> None \<and> walletKey S \<noteq> None \<longrightarrow>
              Rpc Base RevokeSessionKey \<in> set (newEvents h (snd (revokeSessionKey C S h))))
         \<and> (\<forall>key. wallet S \<noteq> None \<and> walletKey S \<noteq> None \<and> sessionKey h = Some key \<longrightarrow>
              Rpc Base (RegisterSessionKey (publicKey key))
                \<in> set (newEvents h (snd (registerSessionKey R C S h))))"
proof (cases "wallet S = None \<or> walletKey S = None")
  case True
  then show ?thesis
    by (auto simp add: not_connected [OF True] newEvents_def emit_def)
next
  case False
  then obtain w pk where connected: "wallet S = Some w" "walletKey S = Some pk"
    by auto
  with assms have failed:
    "getAccountInfo C Base (getPlayerPda C pk) = Inr None
     \<or> (\<exists>e. getAccountInfo C Base (getPlayerPda C pk) = Inl e)"
    by auto
  then have live:
    "(case getAccountInfo C Base (getPlayerPda C pk) of
        Inr (Some accountInfo) \<Rightarrow> owner accountInfo \<noteq> PROGRAM_ID C
      | _ \<Rightarrow> False) = False"
    by auto
  have read: "\<not> fst (getCurrentDelegationStatus C S h)"
    by (simp add: getCurrentDelegationStatus_connected [OF connected] live)
  have revoke:
    "set (newEvents h (snd (revokeSessionKey C S h))) \<inter> range (\<lambda>(l, c). Rpc l c)
       = {Rpc Base RevokeSessionKey}"
    by (auto simp add: revokeSessionKey_connected [OF connected] live newEvents_def Let_def
          getConnectionForAccount_def split: sum.splits)
  have register_held:
    "set (newEvents h (snd (registerSessionKey R C S h))) \<inter> range (\<lambda>(l, c). Rpc l c)
       = {Rpc Base (RegisterSessionKey (publicKey key))}" if "sessionKey h = Some key" for key
    by (auto simp add: registerSessionKey_held [OF connected that] live newEvents_def Let_def
          getConnectionForAccount_def split: sum.splits)
  have register_fresh:
    "Rpc l c \<in> set (newEvents h (snd (registerSessionKey R C S h))) \<Longrightarrow> l = Base"
    if "sessionKey h = None" for l c
    by (cases "getOrCreateSessionKey R w pk (window_origin S) (localStorage h)")
       (auto simp add: registerSessionKey_fresh [OF connected that] live newEvents_def Let_def
          getConnectionForAccount_def split: sum.splits)
  have register: "Rpc l c \<in> set (newEvents h (snd (registerSessionKey R C S h))) \<Longrightarrow> l = Base"
    for l c
    using register_held register_fresh by (cases "sessionKey h") auto
  show ?thesis
    using read revoke register register_held by auto
qed

text \<open>A connected wallet and a lookup that throws.\<close>

theorem failed_live_read_routes_to_base_witness:
  "getAccountInfo (sampleChain (Inl (Error ''fetch failed'')) (Inr ''tx3'')) Base
       (getPlayerPda (sampleChain (Inl (Error ''fetch failed'')) (Inr ''tx3'')) ''Alice'')
     = Inl (Error ''fetch failed'')
   \<and> \<not> fst (getCurrentDelegationStatus (sampleChain (Inl (Error ''fetch failed'')) (Inr ''tx3''))
               sampleSession activeHook)
   \<and> Rpc Base RevokeSessionKey
       \<in> set (newEvents activeHook
                (snd (revokeSessionKey (sampleChain (Inl (Error ''fetch failed'')) (Inr ''tx3''))
                        sampleSession activeHook)))
   \<and> Rpc Base (RegisterSessionKey ''SessionPubkey'')
       \<in> set (newEvents activeHook
                (snd (registerSessionKey (sampleRuntime noParse)
                        (sampleChain (Inl (Error ''fetch failed'')) (Inr ''tx3''))
                        sampleSession activeHook)))"
proof -
  have failed:
    "wallet sampleSession = None \<or> walletKey sampleSession = None
     \<or> (\<exists>pk. walletKey sampleSession = Some pk
            \<and> (getAccountInfo (sampleChain (Inl (Error ''fetch failed'')) (Inr ''tx3'')) Base
                  (getPlayerPda (sampleChain (Inl (Error ''fetch failed'')) (Inr ''tx3'')) pk)
                = Inr None
               \<or> (\<exists>e. getAccountInfo (sampleChain (Inl (Error ''fetch failed'')) (Inr ''tx3'')) Base
                        (getPlayerPda (sampleChain (Inl (Error ''fetch failed'')) (Inr ''tx3'')) pk)
                      = Inl e)))"
    by simp
  show ?thesis
    using failed_live_read_routes_to_base
            [OF failed, where h = activeHook and R = "sampleRuntime noParse"]
    by simp
qed

subsection \<open>Refreshing the player\<close>

text \<open>
  C4: with a wallet connected and the base connection in place, \<open>fetchPlayerData\<close> first
  looks the player account up on the base layer. If the account is absent, both snapshots
  are cleared, the delegation flag is false and nothing else is requested. If it is
  present, the flag is true exactly when the account's owner on the base layer is not the
  program id; the rollup is asked (airdrop, then fetch) only when the flag is true, and
  when the flag is false the rollup snapshot is cleared. A lookup that throws ends as the
  absent account does.
\<close>

theorem fetchPlayerData_routing:
  assumes "baseConnection g = Some base"
  shows "case getAccountInfo C base (getPlayerPda C pk) of
           Inr None \<Rightarrow>
             snd (fetchPlayerData C (Some w) (Some pk) g) = [GetAccountInfo base (getPlayerPda C pk)]
             \<and> basePlayer (fst (fetchPlayerData C (Some w) (Some pk) g)) = None
             \<and> erPlayer (fst (fetchPlayerData C (Some w) (Some pk) g)) = None
             \<and> \<not> isDelegated (fst (fetchPlayerData C (Some w) (Some pk) g))
         | Inr (Some accountInfo) \<Rightarrow>
             isDelegated (fst (fetchPlayerData C (Some w) (Some pk) g))
               = (owner accountInfo \<noteq> PROGRAM_ID C)
             \<and> snd (fetchPlayerData C (Some w) (Some pk) g)
                 = [GetAccountInfo base (getPlayerPda C pk), FetchPlayer base (getPlayerPda C pk)]
                   @ (if owner accountInfo \<noteq> PROGRAM_ID C
                      then (case erConnection g of
                              Some er \<Rightarrow> [RequestAirdrop er (getPlayerPda C pk),
                                          FetchPlayer er (getPlayerPda C pk)]
                            | None \<Rightarrow> [])
                      else [])
             \<and> (owner accountInfo = PROGRAM_ID C \<longrightarrow>
                  erPlayer (fst (fetchPlayerData C (Some w) (Some pk) g)) = None)
         | Inl e \<Rightarrow>
             snd (fetchPlayerData C (Some w) (Some pk) g) = [GetAccountInfo base (getPlayerPda C pk)]
             \<and> basePlayer (fst (fetchPlayerData C (Some w) (Some pk) g)) = None
             \<and> erPlayer (fst (fetchPlayerData C (Some w) (Some pk) g)) = None
             \<and> \<not> isDelegated (fst (fetchPlayerData C (Some w) (Some pk) g))"
proof (cases "getAccountInfo C base (getPlayerPda C pk)")
  case (Inl e)
  with assms show ?thesis
    by (simp add: fetchPlayerData_def notJoined_def)
next
  case (Inr found)
  show ?thesis
  proof (cases found)
    case None
    with Inr assms show ?thesis
      by (simp add: fetchPlayerData_def notJoined_def)
  next
    case (Some accountInfo)
    with Inr assms show ?thesis
      by (simp add: fetchPlayerData_def Let_def split: sum.splits option.splits)
  qed
qed

text \<open>
  An account owned by the delegation program is read on both ledgers; one owned by the
  program is read on the base layer only, and the stale rollup snapshot goes.
\<close>

theorem fetchPlayerData_routing_witness:
  "baseConnection (board None None False) = Some Base
   \<and> isDelegated (fst (fetchPlayerData (sampleChain (accountOwnedBy ''DelegationProgram'') (Inr ''tx''))
                         (Some sampleWallet) (Some ''Alice'') (board None None False)))
   \<and> snd (fetchPlayerData (sampleChain (accountOwnedBy ''DelegationProgram'') (Inr ''tx''))
                         (Some sampleWallet) (Some ''Alice'') (board None None False))
      = [GetAccountInfo Base ''Alice.player'', FetchPlayer Base ''Alice.player'',
         RequestAirdrop ER ''Alice.player'', FetchPlayer ER ''Alice.player'']
   \<and> \<not> isDelegated (fst (fetchPlayerData (sampleChain (accountOwnedBy ''Program'') (Inr ''tx''))
                         (Some sampleWallet) (Some ''Alice'') (board None (Some snapshot77) True)))
   \<and> erPlayer (fst (fetchPlayerData (sampleChain (accountOwnedBy ''Program'') (Inr ''tx''))
                         (Some sampleWallet) (Some ''Alice'') (board None (Some snapshot77) True))) = None
   \<and> snd (fetchPlayerData (sampleChain (accountOwnedBy ''Program'') (Inr ''tx''))
                         (Some sampleWallet) (Some ''Alice'') (board None (Some snapshot77) True))
      = [GetAccountInfo Base ''Alice.player'', FetchPlayer Base ''Alice.player'']"
proof -
  have mounted: "baseConnection (board None None False) = Some Base"
    and mounted': "baseConnection (board None (Some snapshot77) True) = Some Base"
    by simp_all
  show ?thesis
    using mounted
      fetchPlayerData_routing
        [OF mounted, where C = "sampleChain (accountOwnedBy ''DelegationProgram'') (Inr ''tx'')"
           and w = sampleWallet and pk = "''Alice''"]
      fetchPlayerData_routing
        [OF mounted', where C = "sampleChain (accountOwnedBy ''Program'') (Inr ''tx'')"
           and w = sampleWallet and pk = "''Alice''"]
    by simp
qed

subsection \<open>Deriving the session key\<close>

text \<open>
  C3: the key pair \<open>deriveSessionKey\<close> returns is determined by the signature bytes the
  signer returned and the origin. Two calls that obtained the same signature for the same
  origin return the same result, whatever else differs between the signers; that result is
  the key pair of the seed \<open>sha256(signature || messageBytes)[0:32]\<close>, and with a hash
  of at least 32 bytes it is a key pair whose secret key starts with that seed.
\<close>

theorem deriveSessionKey_deterministic:
  assumes "requestSignature R wallet1 (messageText origin) = Inr sig"
      and "requestSignature R wallet2 (messageText origin) = Inr sig"
  shows "deriveSessionKey R wallet1 origin = deriveSessionKey R wallet2 origin
         \<and> deriveSessionKey R wallet1 origin
             = Keypair_fromSeed R
                 (take 32 (sha256 R (sig @ TextEncoder_encode (messageText origin))))
         \<and> (length (sha256 R (sig @ TextEncoder_encode (messageText origin))) \<ge> 32 \<longrightarrow>
              (\<exists>key. deriveSessionKey R wallet1 origin = Inr key
                 \<and> take 32 (secretKey key)
                     = take 32 (sha256 R (sig @ TextEncoder_encode (messageText origin)))
                 \<and> publicKey key
                     = toBase58 R (getPublicKey R
                         (take 32 (sha256 R (sig @ TextEncoder_encode (messageText origin)))))))"
  using assms
  by (simp add: deriveSessionKey_def Keypair_fromSeed_def Let_def)

text \<open>The same signature through \<open>signMessage\<close> and through the transaction fallback.\<close>

theorem deriveSessionKey_deterministic_witness:
  "requestSignature (sampleRuntime noParse) (messageWallet [1, 2, 3])
       (messageText (Some ''https://game.example'')) = Inr [1, 2, 3]
   \<and> requestSignature (sampleRuntime noParse) (transactionWallet [1, 2, 3])
       (messageText (Some ''https://game.example'')) = Inr [1, 2, 3]
   \<and> deriveSessionKey (sampleRuntime noParse) (messageWallet [1, 2, 3]) (Some ''https://game.example'')
       = deriveSessionKey (sampleRuntime noParse) (transactionWallet [1, 2, 3])
           (Some ''https://game.example'')
   \<and> (\<exists>key. deriveSessionKey (sampleRuntime noParse) (messageWallet [1, 2, 3])
                (Some ''https://game.example'') = Inr key)"
proof -
  have first: "requestSignature (sampleRuntime noParse) (messageWallet [1, 2, 3])
       (messageText (Some ''https://game.example'')) = Inr [1, 2, 3]"
    by (simp add: requestSignature_def)
  have second: "requestSignature (sampleRuntime noParse) (transactionWallet [1, 2, 3])
       (messageText (Some ''https://game.example'')) = Inr [1, 2, 3]"
    by (simp add: requestSignature_def new_PublicKey_def signature_def Let_def)
  have long: "32 \<le> length (sha256 (sampleRuntime noParse)
                 ([1, 2, 3] @ TextEncoder_encode (messageText (Some ''https://game.example''))))"
    by simp
  note derived = deriveSessionKey_deterministic [OF first second]
  from derived have same:
    "deriveSessionKey (sampleRuntime noParse) (messageWallet [1, 2, 3]) (Some ''https://game.example'')
       = deriveSessionKey (sampleRuntime noParse) (transactionWallet [1, 2, 3])
           (Some ''https://game.example'')"
    by (rule conjunct1)
  from derived long have made:
    "\<exists>key. deriveSessionKey (sampleRuntime noParse) (messageWallet [1, 2, 3])
                (Some ''https://game.example'') = Inr key"
    by blast
  from first second same made show ?thesis
    by (intro conjI)
qed

subsection \<open>Signing with the session wallet\<close>

lemma signTransaction_versioned:
  "SessionWallet_signTransaction R compileAndSign sw (Versioned vtx) =
     (case findIndex (\<lambda>pubkey. pubkey = publicKey (walletSessionKey sw))
             (take (numRequiredSignatures (message vtx)) (staticAccountKeys (message vtx))) of
        None \<Rightarrow> (Some (Error ''Cannot sign with non signer key''), Versioned vtx)
      | Some signerIndex \<Rightarrow>
          (None,
           Versioned (vtx\<lparr>vsignatures :=
                 setSlot (vsignatures vtx) signerIndex []
                   (sign_detached R (serializeVersioned R (message vtx))
                      (secretKey (walletSessionKey sw)))\<rparr>)))"
  by (simp add: SessionWallet_signTransaction_def Let_def split: option.splits)

lemma signTransaction_legacy:
  "SessionWallet_signTransaction R compileAndSign sw (Legacy ltx) =
     (fst (compileAndSign (walletSessionKey sw)
             (ltx\<lparr>feePayer := Some (publicKey (walletSessionKey sw))\<rparr>)),
      Legacy (ltx\<lparr>feePayer := Some (publicKey (walletSessionKey sw)),
                  signatures :=
                    snd (compileAndSign (walletSessionKey sw)
                           (ltx\<lparr>feePayer := Some (publicKey (walletSessionKey sw))\<rparr>))\<rparr>))"
  by (simp add: SessionWallet_signTransaction_def Transaction_partialSign_def Let_def
        split: prod.splits)

lemma length_setSlot: "length (setSlot slots i hole v) = max (length slots) (Suc i)"
  by (simp add: setSlot_def)

lemma setSlot_other:
  "j \<noteq> i \<Longrightarrow> j < length slots \<Longrightarrow> setSlot slots i hole v ! j = slots ! j"
  by (simp add: setSlot_def nth_append)

lemma setSlot_here: "setSlot slots i hole v ! i = v"
  by (simp add: setSlot_def nth_append)

text \<open>
  C6: for a session wallet whose key is not the primary identity's key, \<open>signTransaction\<close>
  never sets the fee payer to the primary identity's public key. After the call a legacy
  transaction's fee payer is the session public key and a versioned transaction's is the one
  it was built with, so the fee payer can be the primary key only on a versioned
  transaction that already named it; the outcome does not depend on the main wallet at
  all. On a legacy transaction the fee payer is assigned first and the signing routine
  runs on the transaction that already carries it.
\<close>

theorem signTransaction_fee_payer:
  assumes "publicKey (walletSessionKey sw) \<noteq> walletPublicKey (mainWallet sw)"
  shows "feePayerOf (snd (SessionWallet_signTransaction R compileAndSign sw tx))
           = (case tx of
                Legacy ltx \<Rightarrow> Some (publicKey (walletSessionKey sw))
              | Versioned vtx \<Rightarrow> feePayerOf tx)
         \<and> (feePayerOf (snd (SessionWallet_signTransaction R compileAndSign sw tx))
               = Some (walletPublicKey (mainWallet sw)) \<longrightarrow>
             (\<exists>vtx. tx = Versioned vtx) \<and> feePayerOf tx = Some (walletPublicKey (mainWallet sw)))
         \<and> SessionWallet_signTransaction R compileAndSign (sw\<lparr>mainWallet := other\<rparr>) tx
             = SessionWallet_signTransaction R compileAndSign sw tx
         \<and> (\<forall>ltx. SessionWallet_signTransaction R compileAndSign sw (Legacy ltx)
               = (fst (compileAndSign (walletSessionKey sw)
                         (ltx\<lparr>feePayer := Some (publicKey (walletSessionKey sw))\<rparr>)),
                  Legacy (ltx\<lparr>feePayer := Some (publicKey (walletSessionKey sw)),
                              signatures :=
                                snd (compileAndSign (walletSessionKey sw)
                                       (ltx\<lparr>feePayer := Some (publicKey (walletSessionKey sw))\<rparr>))\<rparr>)))"
proof (cases tx)
  case (Legacy ltx)
  with assms show ?thesis
    by (simp add: signTransaction_legacy)
next
  case (Versioned vtx)
  with assms show ?thesis
    by (simp add: signTransaction_versioned signTransaction_legacy split: option.splits)
qed

text \<open>A legacy transfer that named the primary identity as payer leaves with the session key.\<close>

theorem signTransaction_fee_payer_witness:
  "publicKey (walletSessionKey sampleSessionWallet) \<noteq> walletPublicKey (mainWallet sampleSessionWallet)
   \<and> feePayerOf (Legacy (transferPaidBy ''Alice'')) = Some ''Alice''
   \<and> feePayerOf (snd (SessionWallet_signTransaction (sampleRuntime noParse) sampleSigner
                         sampleSessionWallet (Legacy (transferPaidBy ''Alice''))))
       = Some ''SessionPubkey''"
proof -
  have distinct:
    "publicKey (walletSessionKey sampleSessionWallet) \<noteq> walletPublicKey (mainWallet sampleSessionWallet)"
    by simp
  show ?thesis
    using distinct
      signTransaction_fee_payer
        [OF distinct, where R = "sampleRuntime noParse" and compileAndSign = sampleSigner
           and tx = "Legacy (transferPaidBy ''Alice'')"]
    by simp
qed

text \<open>
  C9: on a versioned transaction \<open>signTransaction\<close> changes nothing but the session
  key's signature slot. The message, and with it the fee payer, stays as built; when the
  session key is among the required signers its slot receives its signature over the
  serialised message and every other existing slot keeps its content; when it is not, the
  call throws and the transaction is unchanged.
\<close>

theorem signTransaction_versioned_frame:
  "\<exists>vtx'. snd (SessionWallet_signTransaction R compileAndSign sw (Versioned vtx)) = Versioned vtx'
      \<and> message vtx' = message vtx
      \<and> feePayerOf (Versioned vtx') = feePayerOf (Versioned vtx)
      \<and> (case findIndex (\<lambda>pubkey. pubkey = publicKey (walletSessionKey sw))
                 (take (numRequiredSignatures (message vtx)) (staticAccountKeys (message vtx))) of
            None \<Rightarrow>
              vtx' = vtx
              \<and> fst (SessionWallet_signTransaction R compileAndSign sw (Versioned vtx)) \<noteq> None
          | Some i \<Rightarrow>
              fst (SessionWallet_signTransaction R compileAndSign sw (Versioned vtx)) = None
              \<and> vsignatures vtx' ! i
                  = sign_detached R (serializeVersioned R (message vtx))
                      (secretKey (walletSessionKey sw))
              \<and> (\<forall>j < length (vsignatures vtx). j \<noteq> i \<longrightarrow>
                    vsignatures vtx' ! j = vsignatures vtx ! j)
              \<and> length (vsignatures vtx') = max (length (vsignatures vtx)) (Suc i))"
  by (cases "findIndex (\<lambda>pubkey. pubkey = publicKey (walletSessionKey sw))
                 (take (numRequiredSignatures (message vtx)) (staticAccountKeys (message vtx)))")
     (simp_all add: signTransaction_versioned setSlot_other setSlot_here length_setSlot)

text \<open>A pre-built transaction paid by the primary identity, with the session key as second signer.\<close>

theorem signTransaction_versioned_frame_witness:
  "\<exists>vtx'. snd (SessionWallet_signTransaction (sampleRuntime noParse) sampleSigner
                 sampleSessionWallet (Versioned prebuilt)) = Versioned vtx'
      \<and> message vtx' = message prebuilt
      \<and> feePayerOf (Versioned vtx') = Some ''Alice''
      \<and> vsignatures vtx' ! 0 = [0]
      \<and> vsignatures vtx' ! 1
          = sign_detached (sampleRuntime noParse)
              (serializeVersioned (sampleRuntime noParse) (message prebuilt)) [1, 2, 3]
      \<and> length (vsignatures vtx') = 2"
  using signTransaction_versioned_frame
          [where R = "sampleRuntime noParse" and compileAndSign = sampleSigner
             and sw = sampleSessionWallet and vtx = prebuilt]
  by auto

subsection \<open>The cached text reads back as the bytes written\<close>

lemma of_char_digit: "d < 10 \<Longrightarrow> (of_char (digit d) :: nat) = 48 + d"
  by (simp add: digit_def)

lemma digit_not_comma: "d < 10 \<Longrightarrow> digit d \<noteq> CHR '',''"
  using of_char_digit [of d] by auto

lemma isDigit_digit: "d < 10 \<Longrightarrow> isDigit (digit d)"
  by (simp add: isDigit_def of_char_digit)

lemma isDigit_not_comma: "isDigit c \<Longrightarrow> c \<noteq> CHR '',''"
  by (auto simp add: isDigit_def)

lemma byte_range: "unat (b :: 8 word) < 256"
  using unsigned_less [of b] by simp

lemma three_digits: "10 * (10 * ((n :: nat) div 100) + n div 10 mod 10) + n mod 10 = n"
proof -
  have "n div 10 div 10 = n div 100" by (simp add: div_mult2_eq [symmetric])
  then have "10 * (n div 100) + n div 10 mod 10 = n div 10"
    using div_mult_mod_eq [of "n div 10" 10] by simp
  then show ?thesis by simp
qed

lemma digitsValue_decimal: "digitsValue (decimal b) = unat b"
proof (cases "unat b < 10")
  case True
  then show ?thesis
    by (simp add: decimal_def digitsValue_def Let_def of_char_digit)
next
  case False
  show ?thesis
  proof (cases "unat b < 100")
    case True
    then have "unat b div 10 < 10" by simp
    with True False show ?thesis
      by (simp add: decimal_def digitsValue_def Let_def of_char_digit)
  next
    case False
    have "unat b div 100 < 10" using byte_range [of b] by simp
    with False three_digits [of "unat b"] show ?thesis
      by (simp add: decimal_def digitsValue_def Let_def of_char_digit)
  qed
qed

lemma decimal_shape:
  "decimal b \<noteq> []" "length (decimal b) \<le> 3" "list_all isDigit (decimal b)"
  "length (decimal b) = 1 \<or> (of_char (hd (decimal b)) :: nat) \<noteq> 48"
proof -
  let ?n = "unat b"
  have tens: "?n div 10 < 10" if "?n < 100" using that by simp
  have hundreds: "?n div 100 < 10" "?n div 10 mod 10 < 10" "?n mod 10 < 10"
    using byte_range [of b] by simp_all
  show "decimal b \<noteq> []" "length (decimal b) \<le> 3"
    by (simp_all add: decimal_def Let_def)
  show "list_all isDigit (decimal b)"
    using tens hundreds by (simp add: decimal_def Let_def isDigit_digit)
  show "length (decimal b) = 1 \<or> (of_char (hd (decimal b)) :: nat) \<noteq> 48"
    using tens hundreds by (auto simp add: decimal_def Let_def of_char_digit)
qed

lemma decimal_no_comma: "CHR '','' \<notin> set (decimal b)"
  using decimal_shape(3) [of b] isDigit_not_comma by (auto simp add: list_all_iff)

lemma parseByte_decimal: "parseByte (decimal b) = Some b"
proof -
  have "unat b \<le> 255" using byte_range [of b] by simp
  with decimal_shape [of b] show ?thesis
    by (simp add: parseByte_def digitsValue_decimal)
qed

lemma splitComma_not_empty: "splitComma t \<noteq> []"
  by (induction t) (auto split: list.splits)

lemma splitComma_append:
  "CHR '','' \<notin> set s \<Longrightarrow> splitComma (s @ t) = (s @ hd (splitComma t)) # tl (splitComma t)"
proof (induction s)
  case Nil
  then show ?case using splitComma_not_empty [of t] by simp
next
  case (Cons c s)
  then show ?case by auto
qed

lemma splitComma_commaSeparated:
  "items \<noteq> [] \<Longrightarrow> \<forall>s \<in> set items. CHR '','' \<notin> set s \<Longrightarrow>
   splitComma (commaSeparated items) = items"
proof (induction items rule: commaSeparated.induct)
  case 1
  then show ?case by simp
next
  case (2 s)
  then show ?case using splitComma_append [of s "[]"] by simp
next
  case (3 s t ss)
  then show ?case
    using splitComma_append [of s "CHR '','' # commaSeparated (t # ss)"] by simp
qed

lemma commaSeparated_not_empty:
  "items \<noteq> [] \<Longrightarrow> hd items \<noteq> [] \<Longrightarrow> commaSeparated items \<noteq> []"
  by (induction items rule: commaSeparated.induct) auto

lemma parseByteArray_stringify: "parseByteArray (JSON_stringify b) = Some b"
proof (cases b)
  case Nil
  then show ?thesis
    by (simp add: parseByteArray_def JSON_stringify_def)
next
  case (Cons x xs)
  let ?inner = "commaSeparated (map decimal b)"
  have inner: "?inner \<noteq> []"
    using Cons commaSeparated_not_empty [of "map decimal b"] decimal_shape(1) [of x] by simp
  have parts: "splitComma ?inner = map decimal b"
    using Cons splitComma_commaSeparated [of "map decimal b"] decimal_no_comma by simp
  have shape: "JSON_stringify b = CHR ''['' # (?inner @ '']'')"
    by (simp add: JSON_stringify_def)
  show ?thesis
    unfolding shape
    using inner
    by (simp add: parseByteArray_def parts parseByte_decimal butlast_append image_iff comp_def)
qed

subsection \<open>The credential cache\<close>

lemma Keypair_fromSeed_wellformed:
  assumes "Keypair_fromSeed R seed = Inr k" and "length (getPublicKey R seed) = 32"
  shows "Keypair_fromSecretKey R (secretKey k) = Inr k"
  using assms
  by (auto simp add: Keypair_fromSeed_def Keypair_fromSecretKey_def split: if_splits)

lemma JSON_stringify_not_empty: "JSON_stringify b \<noteq> []"
  by (simp add: JSON_stringify_def)

lemma loadCached_absent: "loadCached R None = None"
  by (simp add: loadCached_def)

lemma loadCached_stored:
  assumes "Keypair_fromSecretKey R (secretKey k) = Inr k"
      and "JSON_parse R (JSON_stringify (secretKey k)) = Inr (secretKey k)"
  shows "loadCached R (Some (JSON_stringify (secretKey k))) = Some k"
  using assms by (simp add: loadCached_def JSON_stringify_not_empty)

lemma deriveSessionKey_returns:
  assumes "requestSignature R w (messageText origin) = Inr sig"
      and "32 \<le> length (sha256 R (sig @ TextEncoder_encode (messageText origin)))"
  shows "\<exists>key. deriveSessionKey R w origin = Inr key"
  using assms by (simp add: deriveSessionKey_def Keypair_fromSeed_def Let_def)

text \<open>
  C7: for every primary identity and every well-formed key pair, storing the key and then
  loading for the same identity returns that key pair, secret and public bytes alike, and
  \<open>getOrCreateSessionKey\<close> returns it without asking the wallet; after clearing the
  entry for an identity, loading for that identity finds nothing, \<open>hasSessionKey\<close>
  reports false, and \<open>getOrCreateSessionKey\<close> derives. The text stored is the one
  \<open>JSON.stringify\<close> writes, and the runtime's parser is any one that reads byte arrays
  as \<open>JSON.parse\<close> and \<open>Uint8Array.from\<close> do.
\<close>

theorem cache_round_trip:
  assumes "Keypair_fromSecretKey R (secretKey k) = Inr k"
      and "\<forall>text b. parseByteArray text = Some b \<longrightarrow> JSON_parse R text = Inr b"
  shows "loadCached R (storeCached pk k ls (cacheKey pk)) = Some k
         \<and> hasSessionKey pk (storeCached pk k ls)
         \<and> getOrCreateSessionKey R w pk origin (storeCached pk k ls)
             = (Inr k, storeCached pk k ls)
         \<and> loadCached R (clearSessionKey pk ls (cacheKey pk)) = None
         \<and> \<not> hasSessionKey pk (clearSessionKey pk ls)
         \<and> getOrCreateSessionKey R w pk origin (clearSessionKey pk ls)
             = (case deriveSessionKey R w origin of
                  Inl e \<Rightarrow> (Inl e, clearSessionKey pk ls)
                | Inr fresh \<Rightarrow> (Inr fresh, storeCached pk fresh ls))"
proof -
  have readback: "JSON_parse R (JSON_stringify (secretKey k)) = Inr (secretKey k)"
    using assms(2) parseByteArray_stringify [of "secretKey k"] by blast
  have stored: "storeCached pk k ls (cacheKey pk) = Some (JSON_stringify (secretKey k))"
    by (simp add: storeCached_def)
  have loaded: "loadCached R (storeCached pk k ls (cacheKey pk)) = Some k"
    using loadCached_stored [OF assms(1) readback] by (simp add: stored)
  have cleared: "clearSessionKey pk ls (cacheKey pk) = None"
    by (simp add: clearSessionKey_def)
  have overwritten: "storeCached pk fresh (clearSessionKey pk ls) = storeCached pk fresh ls" for fresh
    by (simp add: storeCached_def clearSessionKey_def)
  have present: "hasSessionKey pk (storeCached pk k ls)"
    by (simp add: hasSessionKey_def stored)
  have hit: "getOrCreateSessionKey R w pk origin (storeCached pk k ls)
               = (Inr k, storeCached pk k ls)"
    by (simp add: getOrCreateSessionKey_def loaded)
  have absent: "loadCached R (clearSessionKey pk ls (cacheKey pk)) = None"
    by (simp add: cleared loadCached_absent)
  have gone: "\<not> hasSessionKey pk (clearSessionKey pk ls)"
    by (simp add: hasSessionKey_def cleared)
  have miss: "getOrCreateSessionKey R w pk origin (clearSessionKey pk ls)
             = (case deriveSessionKey R w origin of
                  Inl e \<Rightarrow> (Inl e, clearSessionKey pk ls)
                | Inr fresh \<Rightarrow> (Inr fresh, storeCached pk fresh ls))"
    by (simp add: getOrCreateSessionKey_def absent overwritten split: sum.splits)
  from loaded present hit absent gone miss show ?thesis
    by (intro conjI)
qed

text \<open>A key pair stored for Alice, loaded again, then cleared.\<close>

theorem cache_round_trip_witness:
  "Keypair_fromSecretKey (sampleRuntime arrayParser) (secretKey wellKey) = Inr wellKey
   \<and> loadCached (sampleRuntime arrayParser)
        (storeCached ''Alice'' wellKey Map.empty (cacheKey ''Alice'')) = Some wellKey
   \<and> getOrCreateSessionKey (sampleRuntime arrayParser) sampleWallet ''Alice''
        (Some ''https://game.example'') (storeCached ''Alice'' wellKey Map.empty)
       = (Inr wellKey, storeCached ''Alice'' wellKey Map.empty)
   \<and> loadCached (sampleRuntime arrayParser)
        (clearSessionKey ''Alice'' (storeCached ''Alice'' wellKey Map.empty) (cacheKey ''Alice''))
       = None
   \<and> \<not> hasSessionKey ''Alice'' (clearSessionKey ''Alice'' (storeCached ''Alice'' wellKey Map.empty))"
proof -
  have wellformed:
    "Keypair_fromSecretKey (sampleRuntime arrayParser) (secretKey wellKey) = Inr wellKey"
    by (simp add: Keypair_fromSecretKey_def)
  have reads:
    "\<forall>text b. parseByteArray text = Some b \<longrightarrow>
               JSON_parse (sampleRuntime arrayParser) text = Inr b"
    by simp
  note trip = cache_round_trip [OF wellformed reads, where w = sampleWallet
      and origin = "Some ''https://game.example''" and pk = "''Alice''"]
  from wellformed
    trip [where ls = Map.empty]
    trip [where ls = "storeCached ''Alice'' wellKey Map.empty"]
  show ?thesis
    by blast
qed

text \<open>
  C8: when the cached entry fails to parse, or parses to bytes that make no valid key
  pair, \<open>getOrCreateSessionKey\<close> does not raise that error: its result is the one of
  \<open>deriveSessionKey\<close>, the same as if the entry had been absent, and when the derivation
  succeeds the fresh key is returned and replaces the entry.
\<close>

theorem corrupted_entry_is_skipped:
  assumes "ls (cacheKey pk) = Some c"
      and "(\<exists>e. JSON_parse R c = Inl e)
           \<or> (\<exists>sk e. JSON_parse R c = Inr sk \<and> Keypair_fromSecretKey R sk = Inl e)"
  shows "getOrCreateSessionKey R w pk origin ls
           = (case deriveSessionKey R w origin of
                Inl e \<Rightarrow> (Inl e, ls)
              | Inr k \<Rightarrow> (Inr k, storeCached pk k ls))
         \<and> fst (getOrCreateSessionKey R w pk origin ls)
             = fst (getOrCreateSessionKey R w pk origin (clearSessionKey pk ls))
         \<and> (\<forall>k. deriveSessionKey R w origin = Inr k \<longrightarrow>
               getOrCreateSessionKey R w pk origin ls = (Inr k, storeCached pk k ls)
               \<and> getOrCreateSessionKey R w pk origin (clearSessionKey pk ls)
                   = (Inr k, storeCached pk k ls))"
proof -
  have skipped: "loadCached R (ls (cacheKey pk)) = None"
    using assms by (auto simp add: loadCached_def)
  have cleared: "clearSessionKey pk ls (cacheKey pk) = None"
    by (simp add: clearSessionKey_def)
  have overwritten: "storeCached pk k (clearSessionKey pk ls) = storeCached pk k ls" for k
    by (simp add: storeCached_def clearSessionKey_def)
  show ?thesis
    by (simp add: getOrCreateSessionKey_def skipped cleared overwritten loadCached_absent
          split: sum.splits)
qed

text \<open>An entry that is not JSON, and a wallet that signs: the derived key comes back.\<close>

theorem corrupted_entry_is_skipped_witness:
  "[cacheKey ''Alice'' \<mapsto> ''not json''] (cacheKey ''Alice'') = Some ''not json''
   \<and> JSON_parse (sampleRuntime noParse) ''not json'' = Inl (Error ''Unexpected token'')
   \<and> fst (getOrCreateSessionKey (sampleRuntime noParse) (messageWallet [1, 2, 3]) ''Alice''
             (Some ''https://game.example'') [cacheKey ''Alice'' \<mapsto> ''not json''])
       = deriveSessionKey (sampleRuntime noParse) (messageWallet [1, 2, 3])
           (Some ''https://game.example'')
   \<and> (\<exists>key. fst (getOrCreateSessionKey (sampleRuntime noParse) (messageWallet [1, 2, 3]) ''Alice''
                   (Some ''https://game.example'') [cacheKey ''Alice'' \<mapsto> ''not json''])
              = Inr key)"
proof -
  have entry: "[cacheKey ''Alice'' \<mapsto> ''not json''] (cacheKey ''Alice'') = Some ''not json''"
    by simp
  have rejected: "JSON_parse (sampleRuntime noParse) ''not json'' = Inl (Error ''Unexpected token'')"
    by simp
  then have corrupted:
    "(\<exists>e. JSON_parse (sampleRuntime noParse) ''not json'' = Inl e)
     \<or> (\<exists>sk e. JSON_parse (sampleRuntime noParse) ''not json'' = Inr sk
              \<and> Keypair_fromSecretKey (sampleRuntime noParse) sk = Inl e)"
    by blast
  have signed: "requestSignature (sampleRuntime noParse) (messageWallet [1, 2, 3])
       (messageText (Some ''https://game.example'')) = Inr [1, 2, 3]"
    by (simp add: requestSignature_def)
  have long: "32 \<le> length (sha256 (sampleRuntime noParse)
                 ([1, 2, 3] @ TextEncoder_encode (messageText (Some ''https://game.example''))))"
    by simp
  obtain key where derived:
    "deriveSessionKey (sampleRuntime noParse) (messageWallet [1, 2, 3])
       (Some ''https://game.example'') = Inr key"
    using deriveSessionKey_returns [OF signed long] by blast
  note skipped = corrupted_entry_is_skipped
      [where ls = "[cacheKey ''Alice'' \<mapsto> ''not json'']" and pk = "''Alice''"
         and c = "''not json''" and R = "sampleRuntime noParse"
         and w = "messageWallet [1, 2, 3]" and origin = "Some ''https://game.example''",
       OF entry corrupted]
  from skipped derived have result:
    "fst (getOrCreateSessionKey (sampleRuntime noParse) (messageWallet [1, 2, 3]) ''Alice''
             (Some ''https://game.example'') [cacheKey ''Alice'' \<mapsto> ''not json'']) = Inr key"
    by simp
  from entry rejected result derived show ?thesis
    by simp
qed

end
